theory Spec2Isabelle
  imports Complex_Main "HOL-Library.Multiset" "HOL-Library.Product_Lexorder"
begin

section \<open>Income and debt tracker: data model\<close>

text \<open>
  The tracker is a single JavaScript module. Its numbers are modelled as exact
  rationals (the "decimal" of the data model): rounding of IEEE doubles, NaN and
  the infinities are outside the model. A property that the code reads with
  \<open>??\<close> or tests for truthiness is an \<open>option\<close>, \<open>None\<close> being the absent
  (undefined) property. Invoices and expenses are plain objects handled by the same
  functions, so both are one record type whose kind-specific properties are
  optional: an expense has no \<open>clientId\<close>, \<open>invoiceNo\<close>, \<open>createdBy\<close> or
  \<open>notes\<close>, an invoice has no \<open>description\<close> or \<open>paidBy\<close>.

  A date string \<open>YYYY-MM-DD\<close> is the triple (year, month 1..12, day); the
  lexicographic order on triples is the order of the time stamps
  \<open>new Date(row.date)\<close> and of the strings themselves. An instant is a date with the
  millisecond of the day, read in UTC (local time is taken to be UTC).
\<close>

type_synonym date = "int \<times> nat \<times> nat"
type_synonym instant = "date \<times> nat"

text \<open>An adjustment \<open>{ id, label, type, value }\<close>.\<close>

record adjustment =
  adj_id :: string
  label :: string
  adj_type :: string
  adj_value :: rat

text \<open>A split \<open>{ mode, debi, bocha }\<close>.\<close>

record split_spec =
  mode :: string
  debi :: "rat option"
  bocha :: "rat option"

record row =
  row_id :: string
  date :: date
  clientId :: "string option"
  invoiceNo :: "string option"
  description :: "string option"
  currency :: string
  amount :: rat
  fxRate :: "rat option"
  createdBy :: "string option"
  paidBy :: "string option"
  adjustments :: "adjustment list"
  split :: split_spec
  row_notes :: "string option"

record client =
  client_id :: string
  name :: string

record meta =
  members :: "string list"
  clients :: "client list"
  logoDataUrl :: "string option"

record settings =
  period :: string

text \<open>A change-log entry \<open>{ id, ts, user, action, payload }\<close>; the payload is the
  id of the row the action created.\<close>

record entry =
  entry_id :: string
  ts :: instant
  user :: string
  action :: string
  payload :: string

record db =
  meta :: meta
  settings :: settings
  invoices :: "row list"
  expenses :: "row list"
  changelog :: "entry list"

section \<open>The financial core\<close>

text \<open>\<open>usdOf\<close>: the guard \<open>row.fxRate ? ... : 0\<close> is written out, a rate that is
  absent or zero being falsy.\<close>

definition usdOf :: "row \<Rightarrow> rat" where
  "usdOf r =
     (if currency r = ''USD'' then amount r
      else (case fxRate r of
              None \<Rightarrow> 0
            | Some fx \<Rightarrow> if fx = 0 then 0 else amount r / fx))"

definition adjStep :: "rat \<Rightarrow> adjustment \<Rightarrow> rat" where
  "adjStep acc adj =
     (if adj_type adj = ''percent'' then acc * (1 + adj_value adj / 100)
      else acc + adj_value adj)"

definition netUsdOf :: "row \<Rightarrow> rat" where
  "netUsdOf r = foldl adjStep (usdOf r) (adjustments r)"

record shares =
  debiUSD :: rat
  bochaUSD :: rat

text \<open>\<open>x ?? 0\<close>\<close>

definition orZero :: "rat option \<Rightarrow> rat" where
  "orZero x = (case x of None \<Rightarrow> 0 | Some v \<Rightarrow> v)"

definition splitUsd :: "row \<Rightarrow> shares" where
  "splitUsd r =
     (let net = netUsdOf r in
      if mode (split r) = ''amount'' then
        \<lparr>debiUSD = orZero (debi (split r)), bochaUSD = orZero (bocha (split r))\<rparr>
      else
        (let d = orZero (debi (split r)) / 100;
             b = orZero (bocha (split r)) / 100
         in \<lparr>debiUSD = net * d, bochaUSD = net * b\<rparr>))"

definition debtDeltaIncome :: "row \<Rightarrow> rat" where
  "debtDeltaIncome iv =
     (if createdBy iv = Some ''Debi'' then - bochaUSD (splitUsd iv)
      else debiUSD (splitUsd iv))"

definition debtDeltaExpense :: "row \<Rightarrow> rat" where
  "debtDeltaExpense ex =
     (if paidBy ex = Some ''Debi'' then bochaUSD (splitUsd ex)
      else - debiUSD (splitUsd ex))"

section \<open>Derived values of the application\<close>


record summary =
  incomeUSD :: rat
  yourShare :: rat
  partnerShare :: rat

text \<open>\<open>totals\<close>: the current user is \<open>null\<close> before the PIN gate.\<close>

definition totals :: "db \<Rightarrow> string option \<Rightarrow> summary" where
  "totals d u =
     (let income = foldl (\<lambda>a r. a + max 0 (netUsdOf r)) 0 (invoices d);
          your = foldl (\<lambda>a r. a + (if u = Some ''Debi'' then debiUSD (splitUsd r)
                                     else bochaUSD (splitUsd r))) 0 (invoices d);
          partner = income - your
      in \<lparr>incomeUSD = income, yourShare = your, partnerShare = partner\<rparr>)"

subsection \<open>Dates\<close>

text \<open>The \<open>Date\<close> methods the code calls. \<open>getMonth\<close> counts from 0. \<open>setMonth\<close> takes
  any integer and carries into the year; the code calls it on the first day of a
  month only, where the day cannot overflow.\<close>

definition getMonth :: "date \<Rightarrow> int" where
  "getMonth d = int (fst (snd d)) - 1"

definition getFullYear :: "date \<Rightarrow> int" where
  "getFullYear d = fst d"

definition setDate :: "date \<Rightarrow> nat \<Rightarrow> date" where
  "setDate d n = (fst d, fst (snd d), n)"

definition setMonth :: "date \<Rightarrow> int \<Rightarrow> date" where
  "setMonth d k = (fst d + k div 12, nat (k mod 12) + 1, snd (snd d))"

definition setFullYear :: "date \<Rightarrow> int \<Rightarrow> date" where
  "setFullYear d y = (y, snd d)"

definition todayISO :: "instant \<Rightarrow> date" where
  "todayISO now = fst now"

text \<open>\<open>lastMonths n\<close> returns the pair \<open>{ start, end }\<close> of date strings.\<close>

definition lastMonths :: "int \<Rightarrow> instant \<Rightarrow> date \<times> date" where
  "lastMonths n now =
     (let d = fst now;
          d = setDate d 1;
          d = setMonth d (getMonth d - (n - 1));
          start = d
      in (start, todayISO now))"

text \<open>\<open>dateRangeFor\<close> returns \<open>{ start, end }\<close> as instants; \<open>new Date(s)\<close> of a date
  string is its midnight.\<close>

definition dateRangeFor :: "string \<Rightarrow> instant \<Rightarrow> instant \<times> instant" where
  "dateRangeFor p now =
     (let defaultStart = fst (lastMonths 6 now);
          start = defaultStart;
          start = (if p = ''12m'' then setMonth start (getMonth (fst now) - 11) else start);
          start = (if p = ''ytd''
                   then setFullYear (setDate (setMonth start 0) 1) (getFullYear (fst now))
                   else start)
      in if p = ''all'' then (((2000, 1, 1), 0), now) else ((start, 0), now))"

subsection \<open>Filters\<close>

record flt =
  flt_period :: string
  flt_clientId :: string
  flt_creator :: string

text \<open>Truthiness of a string property: absent and empty are falsy.\<close>

definition truthy :: "string option \<Rightarrow> bool" where
  "truthy s = (case s of None \<Rightarrow> False | Some v \<Rightarrow> v \<noteq> [])"

definition matchesFilters :: "flt \<Rightarrow> instant \<Rightarrow> row \<Rightarrow> bool" where
  "matchesFilters f now r =
     (let d = (date r, 0 :: nat);
          (start, en) = dateRangeFor (flt_period f) now
      in if d < start \<or> d > en then False
         else if truthy (clientId r) \<and> flt_clientId f \<noteq> ''all''
                 \<and> clientId r \<noteq> Some (flt_clientId f) then False
         else if truthy (createdBy r) \<and> flt_creator f \<noteq> ''all''
                 \<and> createdBy r \<noteq> Some (flt_creator f) then False
         else True)"

subsection \<open>Monthly chart data\<close>

text \<open>The key \<open>date.slice(0,7)\<close> is the year and month. A JavaScript \<open>Map\<close> keeps its
  entries in insertion order: \<open>set\<close> overwrites the value of a key that is present and
  appends a new key.\<close>

type_synonym ym = "int \<times> nat"

definition ymOf :: "date \<Rightarrow> ym" where
  "ymOf d = (fst d, fst (snd d))"

fun mapSet :: "('k \<times> 'v) list \<Rightarrow> 'k \<Rightarrow> 'v \<Rightarrow> ('k \<times> 'v) list" where
  "mapSet [] k v = [(k, v)]"
| "mapSet ((k', v') # m) k v = (if k' = k then (k, v) # m else (k', v') # mapSet m k v)"

text \<open>\<open>map.get(ym) || 0\<close>\<close>

definition getOrZero :: "(ym \<times> rat) list \<Rightarrow> ym \<Rightarrow> rat" where
  "getOrZero m k = (case map_of m k of None \<Rightarrow> 0 | Some v \<Rightarrow> if v = 0 then 0 else v)"

definition add :: "(ym \<times> rat) list \<Rightarrow> date \<Rightarrow> rat \<Rightarrow> (ym \<times> rat) list" where
  "add m dt val = (let k = ymOf dt in mapSet m k (getOrZero m k + val))"

definition monthly :: "db \<Rightarrow> flt \<Rightarrow> instant \<Rightarrow> (ym \<times> rat) list" where
  "monthly d f now =
     (let m = [];
          m = foldl (\<lambda>m r. if matchesFilters f now r then add m (date r) (netUsdOf r) else m)
                m (invoices d);
          m = foldl (\<lambda>m r. if matchesFilters f now r then add m (date r) (- netUsdOf r) else m)
                m (expenses d)
      in sort_key fst m)"

section \<open>Actions and change log\<close>

text \<open>Each action is the state update it passes to \<open>setDb\<close>. The results of \<open>uid()\<close>,
  \<open>Math.random()\<close> and \<open>new Date()\<close> are parameters. \<open>userOr u d\<close> is \<open>user || d\<close>.
  \<open>addInvoice\<close> and \<open>addExpense\<close> make two updates, the new row and then the log
  entry; the rendered document that \<open>addInvoice\<close> reads the first client from is taken
  to be the current one.\<close>

definition userOr :: "string option \<Rightarrow> string \<Rightarrow> string" where
  "userOr u dflt = (case u of None \<Rightarrow> dflt | Some v \<Rightarrow> if v = [] then dflt else v)"

definition logAction :: "string option \<Rightarrow> string \<Rightarrow> instant \<Rightarrow> string \<Rightarrow> string \<Rightarrow> db \<Rightarrow> db" where
  "logAction u newId now act pl cur =
     cur\<lparr>changelog :=
           \<lparr>entry_id = newId, ts = now, user = userOr u ''sys'', action = act, payload = pl\<rparr>
           # changelog cur\<rparr>"

definition curClientId :: "db \<Rightarrow> string" where
  "curClientId d = (case clients (meta d) of [] \<Rightarrow> [] | c # _ \<Rightarrow> client_id c)"

definition addInvoice :: "string option \<Rightarrow> instant \<Rightarrow> string \<Rightarrow> string \<Rightarrow> string \<Rightarrow> db \<Rightarrow> db" where
  "addInvoice u now rowId invNo logId cur =
     (let r = \<lparr>row_id = rowId, date = todayISO now, clientId = Some (curClientId cur),
                invoiceNo = Some invNo, description = None, currency = ''USD'', amount = 0,
                fxRate = Some 0, createdBy = Some (userOr u ''Debi''), paidBy = None,
                adjustments = [],
                split = \<lparr>mode = ''percent'', debi = Some 50, bocha = Some 50\<rparr>,
                row_notes = Some []\<rparr>
      in logAction u logId now ''add_invoice'' (row_id r) (cur\<lparr>invoices := r # invoices cur\<rparr>))"

definition addExpense :: "string option \<Rightarrow> instant \<Rightarrow> string \<Rightarrow> string \<Rightarrow> db \<Rightarrow> db" where
  "addExpense u now rowId logId cur =
     (let r = \<lparr>row_id = rowId, date = todayISO now, clientId = None,
                invoiceNo = None, description = Some [], currency = ''USD'', amount = 0,
                fxRate = Some 0, createdBy = None, paidBy = Some (userOr u ''Debi''),
                adjustments = [],
                split = \<lparr>mode = ''percent'', debi = Some 50, bocha = Some 50\<rparr>,
                row_notes = None\<rparr>
      in logAction u logId now ''add_expense'' (row_id r) (cur\<lparr>expenses := r # expenses cur\<rparr>))"

text \<open>A patch is an object naming some of a row's properties; \<open>None\<close> is a property
  the patch does not name. The patches the tables build never name \<open>id\<close>.\<close>

record patch =
  p_date :: "date option"
  p_clientId :: "string option"
  p_invoiceNo :: "string option"
  p_description :: "string option"
  p_currency :: "string option"
  p_amount :: "rat option"
  p_fxRate :: "rat option"
  p_createdBy :: "string option"
  p_paidBy :: "string option"
  p_adjustments :: "adjustment list option"
  p_split :: "split_spec option"
  p_notes :: "string option"

text \<open>One property of \<open>{ ...r, ...patch }\<close>: the patch's value where it names it.\<close>

definition over :: "'a \<Rightarrow> 'a option \<Rightarrow> 'a" where
  "over old new = (case new of None \<Rightarrow> old | Some v \<Rightarrow> v)"

definition overOpt :: "'a option \<Rightarrow> 'a option \<Rightarrow> 'a option" where
  "overOpt old new = (case new of None \<Rightarrow> old | Some v \<Rightarrow> Some v)"

definition applyPatch :: "row \<Rightarrow> patch \<Rightarrow> row" where
  "applyPatch r p =
     \<lparr>row_id = row_id r,
      date = over (date r) (p_date p),
      clientId = overOpt (clientId r) (p_clientId p),
      invoiceNo = overOpt (invoiceNo r) (p_invoiceNo p),
      description = overOpt (description r) (p_description p),
      currency = over (currency r) (p_currency p),
      amount = over (amount r) (p_amount p),
      fxRate = overOpt (fxRate r) (p_fxRate p),
      createdBy = overOpt (createdBy r) (p_createdBy p),
      paidBy = overOpt (paidBy r) (p_paidBy p),
      adjustments = over (adjustments r) (p_adjustments p),
      split = over (split r) (p_split p),
      row_notes = overOpt (row_notes r) (p_notes p)\<rparr>"

text \<open>The collection an action works on: \<open>key\<close> is \<open>"invoices"\<close> for the type
  \<open>"invoice"\<close> and \<open>"expenses"\<close> for every other type; \<open>getRows\<close> is \<open>cur[key]\<close> and
  \<open>setRows\<close> is \<open>{ ...cur, [key]: rows }\<close>.\<close>

datatype key = Invoices | Expenses

definition keyOf :: "string \<Rightarrow> key" where
  "keyOf ty = (if ty = ''invoice'' then Invoices else Expenses)"

fun getRows :: "key \<Rightarrow> db \<Rightarrow> row list" where
  "getRows Invoices cur = invoices cur"
| "getRows Expenses cur = expenses cur"

fun setRows :: "key \<Rightarrow> row list \<Rightarrow> db \<Rightarrow> db" where
  "setRows Invoices rows cur = cur\<lparr>invoices := rows\<rparr>"
| "setRows Expenses rows cur = cur\<lparr>expenses := rows\<rparr>"

definition updateRow :: "string \<Rightarrow> string \<Rightarrow> patch \<Rightarrow> db \<Rightarrow> db" where
  "updateRow ty i p cur =
     (let key = keyOf ty;
          rows = map (\<lambda>r. if row_id r = i then applyPatch r p else r) (getRows key cur)
      in setRows key rows cur)"

definition removeRow :: "string \<Rightarrow> string \<Rightarrow> db \<Rightarrow> db" where
  "removeRow ty i cur =
     (let key = keyOf ty
      in setRows key (filter (\<lambda>r. row_id r \<noteq> i) (getRows key cur)) cur)"

section \<open>The seed document and example rows\<close>

text \<open>\<open>seed()\<close>, with the four ids it draws as parameters.\<close>

definition seed :: "instant \<Rightarrow> string \<Rightarrow> string \<Rightarrow> string \<Rightarrow> string \<Rightarrow> db" where
  "seed now id1 adjId id2 id3 =
     \<lparr>meta = \<lparr>members = [''Debi'', ''Bocha''],
              clients = [\<lparr>client_id = ''c-lions'', name = ''Lions''\<rparr>,
                         \<lparr>client_id = ''c-tgi'', name = ''TGI''\<rparr>,
                         \<lparr>client_id = ''c-ecuabet'', name = ''Ecuabet''\<rparr>],
              logoDataUrl = None\<rparr>,
      settings = \<lparr>period = ''6m''\<rparr>,
      invoices =
        [\<lparr>row_id = id1, date = fst now, clientId = Some ''c-lions'',
          invoiceNo = Some ''INV-1001'', description = None, currency = ''USD'',
          amount = 1200, fxRate = Some 0, createdBy = Some ''Debi'', paidBy = None,
          adjustments = [\<lparr>adj_id = adjId, label = ''Bank tax'', adj_type = ''percent'',
                           adj_value = - 3\<rparr>],
          split = \<lparr>mode = ''percent'', debi = Some 50, bocha = Some 50\<rparr>,
          row_notes = Some ''Example row''\<rparr>,
         \<lparr>row_id = id2, date = fst now, clientId = Some ''c-tgi'',
          invoiceNo = Some ''INV-1002'', description = None, currency = ''ARS'',
          amount = 900000, fxRate = Some 1000, createdBy = Some ''Bocha'', paidBy = None,
          adjustments = [],
          split = \<lparr>mode = ''percent'', debi = Some 50, bocha = Some 50\<rparr>,
          row_notes = Some ''Peso example''\<rparr>],
      expenses =
        [\<lparr>row_id = id3, date = todayISO now, clientId = None,
          invoiceNo = None, description = Some ''Accountant retainer'', currency = ''USD'',
          amount = 200, fxRate = Some 0, createdBy = None, paidBy = Some ''Debi'',
          adjustments = [],
          split = \<lparr>mode = ''percent'', debi = Some 50, bocha = Some 50\<rparr>,
          row_notes = None\<rparr>],
      changelog = []\<rparr>"

text \<open>The seed document of 15 March 2026, one second after midnight.\<close>

definition now0 :: instant where
  "now0 = ((2026, 3, 15), 1000)"

definition db0 :: db where
  "db0 = seed now0 ''i1'' ''a1'' ''i2'' ''e1''"

definition inv1 :: row where
  "inv1 = invoices db0 ! 0"

definition inv2 :: row where
  "inv2 = invoices db0 ! 1"

definition exp1 :: row where
  "exp1 = expenses db0 ! 0"

text \<open>The same expense paid by Bocha, and the first invoice dated in 1999.\<close>

definition exp2 :: row where
  "exp2 = exp1\<lparr>row_id := ''e2'', paidBy := Some ''Bocha''\<rparr>"

definition invOld :: row where
  "invOld = inv1\<lparr>row_id := ''i0'', date := (1999, 12, 31)\<rparr>"

definition pct :: "rat \<Rightarrow> adjustment" where
  "pct v = \<lparr>adj_id = ''p'', label = ''Adj'', adj_type = ''percent'', adj_value = v\<rparr>"

definition fixed :: "rat \<Rightarrow> adjustment" where
  "fixed v = \<lparr>adj_id = ''f'', label = ''Adj'', adj_type = ''fixed'', adj_value = v\<rparr>"

text \<open>The seed document with the invoice of 1999 added, the filters as the
  application starts with them, and a filter on the creator Debi.\<close>

definition db1 :: db where
  "db1 = db0\<lparr>invoices := invOld # invoices db0\<rparr>"

definition flt0 :: flt where
  "flt0 = \<lparr>flt_period = ''6m'', flt_clientId = ''all'', flt_creator = ''all''\<rparr>"


text \<open>A document with rows in two months of the range and one row before it: the
  second invoice and a second expense are dated in February 2026.\<close>

definition db2 :: db where
  "db2 = db0\<lparr>invoices := [inv1, inv2\<lparr>date := (2026, 2, 10)\<rparr>, invOld],
              expenses := [exp1, exp2\<lparr>date := (2026, 2, 20)\<rparr>]\<rparr>"

text \<open>The patch \<open>{ amount: 5 }\<close>.\<close>

definition patchAmount :: patch where
  "patchAmount =
     \<lparr>p_date = None, p_clientId = None, p_invoiceNo = None, p_description = None,
      p_currency = None, p_amount = Some 5, p_fxRate = None, p_createdBy = None,
      p_paidBy = None, p_adjustments = None, p_split = None, p_notes = None\<rparr>"

text \<open>A split in amount mode with no share for Bocha.\<close>

definition amt :: split_spec where
  "amt = \<lparr>mode = ''amount'', debi = Some 30, bocha = None\<rparr>"

section \<open>Properties of the financial core\<close>

lemmas seed_rows =
  inv1_def inv2_def exp1_def exp2_def invOld_def db0_def seed_def now0_def todayISO_def

lemmas core_defs =
  debtDeltaIncome_def debtDeltaExpense_def splitUsd_def netUsdOf_def usdOf_def adjStep_def
  orZero_def

text \<open>
  C1. The debt delta to the balance "Bocha owes Debi": an income created by Debi
  subtracts Bocha's share, an income created by Bocha adds Debi's share, an expense
  paid by Debi adds Bocha's share, an expense paid by Bocha subtracts Debi's share,
  the shares being those \<open>splitUsd\<close> computes for the row.
\<close>

theorem debtDelta_policy:
  "(createdBy r = Some ''Debi'' \<longrightarrow> debtDeltaIncome r = - bochaUSD (splitUsd r)) \<and>
   (createdBy r = Some ''Bocha'' \<longrightarrow> debtDeltaIncome r = debiUSD (splitUsd r)) \<and>
   (paidBy r = Some ''Debi'' \<longrightarrow> debtDeltaExpense r = bochaUSD (splitUsd r)) \<and>
   (paidBy r = Some ''Bocha'' \<longrightarrow> debtDeltaExpense r = - debiUSD (splitUsd r))"
  by (simp add: debtDeltaIncome_def debtDeltaExpense_def)

theorem debtDelta_policy_witness:
  "createdBy inv1 = Some ''Debi'' \<and> debtDeltaIncome inv1 = - 582 \<and>
   createdBy inv2 = Some ''Bocha'' \<and> debtDeltaIncome inv2 = 450 \<and>
   paidBy exp1 = Some ''Debi'' \<and> debtDeltaExpense exp1 = 100 \<and>
   paidBy exp2 = Some ''Bocha'' \<and> debtDeltaExpense exp2 = - 100"
  using debtDelta_policy [of inv1] debtDelta_policy [of inv2]
    debtDelta_policy [of exp1] debtDelta_policy [of exp2]
  by (simp add: seed_rows splitUsd_def netUsdOf_def usdOf_def adjStep_def orZero_def)

text \<open>
  C2. The normalized amount of a row is its amount when the currency is USD;
  otherwise the amount divided by the rate when the rate is not zero; and 0, a
  proper number, when the rate of a non-USD row is zero or absent. 900000 ARS at the
  rate 1000 are 900 USD.
\<close>

theorem usdOf_cases:
  "(currency r = ''USD'' \<longrightarrow> usdOf r = amount r) \<and>
   (currency r \<noteq> ''USD'' \<and> fxRate r = Some fx \<and> fx \<noteq> 0 \<longrightarrow> usdOf r = amount r / fx) \<and>
   (currency r \<noteq> ''USD'' \<and> (fxRate r = None \<or> fxRate r = Some 0) \<longrightarrow> usdOf r = 0) \<and>
   usdOf (r\<lparr>currency := ''ARS'', amount := 900000, fxRate := Some 1000\<rparr>) = 900"
  by (auto simp add: usdOf_def)

theorem usdOf_cases_witness:
  "currency inv1 = ''USD'' \<and> usdOf inv1 = 1200 \<and>
   currency inv2 \<noteq> ''USD'' \<and> fxRate inv2 = Some 1000 \<and> usdOf inv2 = 900 \<and>
   usdOf (inv2\<lparr>fxRate := Some 0\<rparr>) = 0 \<and> usdOf (inv2\<lparr>fxRate := None\<rparr>) = 0"
  using usdOf_cases [of inv1 0] usdOf_cases [of inv2 1000]
    usdOf_cases [of "inv2\<lparr>fxRate := Some 0\<rparr>" 0] usdOf_cases [of "inv2\<lparr>fxRate := None\<rparr>" 0]
  by (simp add: seed_rows)

lemma usdOf_adjustments [simp]: "usdOf (r\<lparr>adjustments := as\<rparr>) = usdOf r"
  by (simp add: usdOf_def split: option.split)

text \<open>
  C3. The net amount is the left fold over the adjustments in stored order, from the
  normalized amount: with no adjustment it is the base; the adjustment stored last is
  applied last, a percent adjustment multiplying what the ones before gave by
  \<open>1 + value/100\<close> and a fixed adjustment adding its value. On the base 100,
  percent -10 then fixed +5 give 95, and fixed +5 then percent -10 give 94.5.
\<close>

theorem netUsdOf_fold:
  "netUsdOf (r\<lparr>adjustments := []\<rparr>) = usdOf r \<and>
   (adj_type a = ''percent'' \<longrightarrow>
      netUsdOf (r\<lparr>adjustments := as @ [a]\<rparr>)
        = netUsdOf (r\<lparr>adjustments := as\<rparr>) * (1 + adj_value a / 100)) \<and>
   (adj_type a = ''fixed'' \<longrightarrow>
      netUsdOf (r\<lparr>adjustments := as @ [a]\<rparr>)
        = netUsdOf (r\<lparr>adjustments := as\<rparr>) + adj_value a) \<and>
   (currency r = ''USD'' \<and> amount r = 100 \<longrightarrow>
      netUsdOf (r\<lparr>adjustments := [pct (- 10), fixed 5]\<rparr>) = 95 \<and>
      netUsdOf (r\<lparr>adjustments := [fixed 5, pct (- 10)]\<rparr>) = 189 / 2)"
  by (simp add: netUsdOf_def adjStep_def pct_def fixed_def) (simp add: usdOf_def)

theorem netUsdOf_fold_witness:
  "adj_type (pct (- 3)) = ''percent'' \<and> adj_type (fixed 5) = ''fixed'' \<and>
   currency (inv1\<lparr>amount := 100\<rparr>) = ''USD'' \<and> amount (inv1\<lparr>amount := 100\<rparr>) = 100 \<and>
   netUsdOf (inv1\<lparr>amount := 100, adjustments := [pct (- 10), fixed 5]\<rparr>) = 95 \<and>
   netUsdOf (inv1\<lparr>amount := 100, adjustments := [fixed 5, pct (- 10)]\<rparr>) = 189 / 2 \<and>
   netUsdOf (inv1\<lparr>amount := 100, adjustments := [fixed 5] @ [pct (- 3)]\<rparr>)
     = netUsdOf (inv1\<lparr>amount := 100, adjustments := [fixed 5]\<rparr>) * (1 + (- 3) / 100) \<and>
   netUsdOf (inv1\<lparr>amount := 100, adjustments := [pct (- 3)] @ [fixed 5]\<rparr>)
     = netUsdOf (inv1\<lparr>amount := 100, adjustments := [pct (- 3)]\<rparr>) + 5"
  using netUsdOf_fold [of "inv1\<lparr>amount := 100\<rparr>" "pct (- 3)" "[fixed 5]"]
    netUsdOf_fold [of "inv1\<lparr>amount := 100\<rparr>" "fixed 5" "[pct (- 3)]"]
  by (simp add: seed_rows pct_def fixed_def)

text \<open>
  C4. In amount mode the split is the pair of the stored shares, whatever the net
  amount is: two rows with the same split get the same result. In percent mode it is
  the net amount times each share over 100. In both modes an absent share counts
  as 0.
\<close>

theorem splitUsd_modes:
  "(mode (split r) = ''amount'' \<longrightarrow>
      splitUsd r = \<lparr>debiUSD = (case debi (split r) of None \<Rightarrow> 0 | Some a \<Rightarrow> a),
                    bochaUSD = (case bocha (split r) of None \<Rightarrow> 0 | Some b \<Rightarrow> b)\<rparr>) \<and>
   (mode (split r) = ''amount'' \<and> split r' = split r \<longrightarrow> splitUsd r' = splitUsd r) \<and>
   (mode (split r) = ''percent'' \<longrightarrow>
      splitUsd r =
        \<lparr>debiUSD = netUsdOf r * (case debi (split r) of None \<Rightarrow> 0 | Some a \<Rightarrow> a) / 100,
         bochaUSD = netUsdOf r * (case bocha (split r) of None \<Rightarrow> 0 | Some b \<Rightarrow> b) / 100\<rparr>)"
  by (simp add: splitUsd_def orZero_def Let_def)

theorem splitUsd_modes_witness:
  "mode (split (inv1\<lparr>split := amt\<rparr>)) = ''amount'' \<and>
   split (inv2\<lparr>split := amt\<rparr>) = split (inv1\<lparr>split := amt\<rparr>) \<and>
   splitUsd (inv1\<lparr>split := amt\<rparr>) = \<lparr>debiUSD = 30, bochaUSD = 0\<rparr> \<and>
   splitUsd (inv2\<lparr>split := amt\<rparr>) = \<lparr>debiUSD = 30, bochaUSD = 0\<rparr> \<and>
   netUsdOf (inv1\<lparr>split := amt\<rparr>) \<noteq> netUsdOf (inv2\<lparr>split := amt\<rparr>) \<and>
   mode (split inv1) = ''percent'' \<and>
   splitUsd inv1 = \<lparr>debiUSD = 582, bochaUSD = 582\<rparr> \<and>
   splitUsd (inv1\<lparr>split := split inv1\<lparr>debi := None\<rparr>\<rparr>) = \<lparr>debiUSD = 0, bochaUSD = 582\<rparr>"
  using splitUsd_modes [of "inv1\<lparr>split := amt\<rparr>" "inv2\<lparr>split := amt\<rparr>"]
    splitUsd_modes [of inv1 inv1]
    splitUsd_modes [of "inv1\<lparr>split := split inv1\<lparr>debi := None\<rparr>\<rparr>" inv1]
  by (simp add: seed_rows amt_def netUsdOf_def usdOf_def adjStep_def)

section \<open>The debt balance\<close>

lemma foldl_add_sum:
  fixes f :: "'a \<Rightarrow> rat"
  shows "foldl (\<lambda>acc r. acc + f r) a xs = a + sum_list (map f xs)"
  by (induction xs arbitrary: a) (simp_all add: add.assoc)





section \<open>Summary totals\<close>

lemma dateRangeFor_6m_now0: "dateRangeFor ''6m'' now0 = (((2025, 10, 1), 0), now0)"
  by (simp add: dateRangeFor_def lastMonths_def setDate_def setMonth_def getMonth_def
      todayISO_def now0_def)

lemma nets_db1:
  "netUsdOf invOld = 1164" "netUsdOf inv1 = 1164" "netUsdOf inv2 = 900"
  by (simp_all add: seed_rows core_defs)

lemma matches_db1:
  "\<not> matchesFilters flt0 now0 invOld" "matchesFilters flt0 now0 inv1"
  "matchesFilters flt0 now0 inv2"
  by (simp_all add: matchesFilters_def flt0_def dateRangeFor_6m_now0 truthy_def)
     (simp_all add: seed_rows)

lemma invoices_db1: "invoices db1 = [invOld, inv1, inv2]"
  by (simp add: db1_def seed_rows)

text \<open>
  C6, as the specification states it, fails: the invoice of 1999 is outside the range
  of the six-month filter, and Total Income still counts it. The total is 3228, the
  sum over the invoices that pass the filter is 2064.
\<close>

theorem totals_filtered_counterexample:
  "\<not> matchesFilters flt0 now0 invOld \<and>
   incomeUSD (totals db1 (Some ''Debi'')) = 3228 \<and>
   incomeUSD (totals db1 (Some ''Debi''))
     \<noteq> sum_list (map (\<lambda>r. max 0 (netUsdOf r))
                  (filter (matchesFilters flt0 now0) (invoices db1)))"
  by (simp add: totals_def invoices_db1 matches_db1 nets_db1 Let_def)

text \<open>
  C6, amended. The summary totals do not consult the filter: Total Income is the sum
  of \<open>max(0, net)\<close> over all invoices of the document, the current user's share is
  the sum over all invoices of Debi's share when the user is Debi and of Bocha's share
  otherwise, and the partner's share is Total Income minus the current user's share.
\<close>

theorem totals_unfiltered:
  "incomeUSD (totals d u) = sum_list (map (\<lambda>r. max 0 (netUsdOf r)) (invoices d)) \<and>
   yourShare (totals d u)
     = sum_list (map (\<lambda>r. if u = Some ''Debi'' then debiUSD (splitUsd r)
                            else bochaUSD (splitUsd r)) (invoices d)) \<and>
   partnerShare (totals d u) = incomeUSD (totals d u) - yourShare (totals d u)"
  by (simp add: totals_def foldl_add_sum Let_def)

theorem totals_unfiltered_witness:
  "incomeUSD (totals db1 (Some ''Debi'')) = 3228 \<and>
   yourShare (totals db1 (Some ''Debi'')) = 1614 \<and>
   partnerShare (totals db1 (Some ''Debi'')) = 1614"
  using totals_unfiltered [of db1 "Some ''Debi''"]
  by (simp add: invoices_db1 nets_db1 splitUsd_def orZero_def) (simp add: seed_rows)

section \<open>Filters\<close>










text \<open>
  The twelve-month preset moves the month of the six-month start, whose year is
  already the previous one from January to May: in March 2026 it starts in April
  2024, not in April 2025.
\<close>

lemma dateRangeFor_12m_now0: "fst (dateRangeFor ''12m'' now0) = ((2024, 4, 1), 0)"
  by (simp add: dateRangeFor_def lastMonths_def setDate_def setMonth_def getMonth_def
      todayISO_def now0_def)


section \<open>Actions\<close>

text \<open>Adding a row puts one entry at the head of the change log and keeps the
  entries that were there.\<close>

lemma addInvoice_logs:
  "changelog (addInvoice u now rowId invNo logId cur)
   = \<lparr>entry_id = logId, ts = now, user = userOr u ''sys'', action = ''add_invoice'',
      payload = rowId\<rparr> # changelog cur"
  by (simp add: addInvoice_def logAction_def)

lemma addExpense_logs:
  "changelog (addExpense u now rowId logId cur)
   = \<lparr>entry_id = logId, ts = now, user = userOr u ''sys'', action = ''add_expense'',
      payload = rowId\<rparr> # changelog cur"
  by (simp add: addExpense_def logAction_def)

lemma getRows_setRows: "getRows k (setRows k' rows cur) = (if k = k' then rows else getRows k cur)"
  by (cases k; cases k') simp_all

lemma setRows_frame [simp]:
  "meta (setRows k rows cur) = meta cur"
  "settings (setRows k rows cur) = settings cur"
  "changelog (setRows k rows cur) = changelog cur"
  by (cases k; simp)+

text \<open>
  C9. Every mutating action should leave an entry in the change log. Updating and
  deleting a row do not: on the seed document, \<open>updateRow\<close> changes the first invoice
  and \<open>removeRow\<close> deletes the expense, and the change log is what it was.
\<close>

theorem updateRow_removeRow_no_log:
  "changelog (updateRow ''invoice'' ''i1'' patchAmount db0) = changelog db0 \<and>
   invoices (updateRow ''invoice'' ''i1'' patchAmount db0) \<noteq> invoices db0 \<and>
   changelog (removeRow ''expense'' ''e1'' db0) = changelog db0 \<and>
   expenses (removeRow ''expense'' ''e1'' db0) \<noteq> expenses db0"
  by (simp add: updateRow_def removeRow_def keyOf_def)
     (simp add: seed_rows applyPatch_def patchAmount_def over_def)

lemma applyPatch_fields:
  "row_id (applyPatch r p) = row_id r"
  "date (applyPatch r p) = (case p_date p of None \<Rightarrow> date r | Some v \<Rightarrow> v)"
  "clientId (applyPatch r p) = (case p_clientId p of None \<Rightarrow> clientId r | Some v \<Rightarrow> Some v)"
  "invoiceNo (applyPatch r p) = (case p_invoiceNo p of None \<Rightarrow> invoiceNo r | Some v \<Rightarrow> Some v)"
  "description (applyPatch r p)
     = (case p_description p of None \<Rightarrow> description r | Some v \<Rightarrow> Some v)"
  "currency (applyPatch r p) = (case p_currency p of None \<Rightarrow> currency r | Some v \<Rightarrow> v)"
  "amount (applyPatch r p) = (case p_amount p of None \<Rightarrow> amount r | Some v \<Rightarrow> v)"
  "fxRate (applyPatch r p) = (case p_fxRate p of None \<Rightarrow> fxRate r | Some v \<Rightarrow> Some v)"
  "createdBy (applyPatch r p) = (case p_createdBy p of None \<Rightarrow> createdBy r | Some v \<Rightarrow> Some v)"
  "paidBy (applyPatch r p) = (case p_paidBy p of None \<Rightarrow> paidBy r | Some v \<Rightarrow> Some v)"
  "adjustments (applyPatch r p)
     = (case p_adjustments p of None \<Rightarrow> adjustments r | Some v \<Rightarrow> v)"
  "split (applyPatch r p) = (case p_split p of None \<Rightarrow> split r | Some v \<Rightarrow> v)"
  "row_notes (applyPatch r p) = (case p_notes p of None \<Rightarrow> row_notes r | Some v \<Rightarrow> Some v)"
  by (simp_all add: applyPatch_def over_def overOpt_def)

text \<open>
  C10. \<open>updateRow\<close> leaves meta, settings, the change log and the collection it does
  not target as they were; the targeted collection keeps its length, a row whose id is
  not the given one is unchanged, and a row with the given id becomes its patched
  copy, which keeps the id and every property the patch does not name and takes the
  patch's value for each property it names. \<open>removeRow\<close> leaves the same parts as
  they were and keeps, in order, exactly the rows of the targeted collection whose id
  is not the given one.
\<close>

theorem updateRow_removeRow_frame:
  "meta (updateRow ty i p cur) = meta cur \<and>
   settings (updateRow ty i p cur) = settings cur \<and>
   changelog (updateRow ty i p cur) = changelog cur \<and>
   (k \<noteq> keyOf ty \<longrightarrow> getRows k (updateRow ty i p cur) = getRows k cur) \<and>
   length (getRows (keyOf ty) (updateRow ty i p cur)) = length (getRows (keyOf ty) cur) \<and>
   (n < length (getRows (keyOf ty) cur) \<longrightarrow>
      getRows (keyOf ty) (updateRow ty i p cur) ! n
        = (if row_id (getRows (keyOf ty) cur ! n) = i
           then applyPatch (getRows (keyOf ty) cur ! n) p
           else getRows (keyOf ty) cur ! n)) \<and>
   row_id (applyPatch r p) = row_id r \<and>
   date (applyPatch r p) = (case p_date p of None \<Rightarrow> date r | Some v \<Rightarrow> v) \<and>
   clientId (applyPatch r p)
     = (case p_clientId p of None \<Rightarrow> clientId r | Some v \<Rightarrow> Some v) \<and>
   invoiceNo (applyPatch r p)
     = (case p_invoiceNo p of None \<Rightarrow> invoiceNo r | Some v \<Rightarrow> Some v) \<and>
   description (applyPatch r p)
     = (case p_description p of None \<Rightarrow> description r | Some v \<Rightarrow> Some v) \<and>
   currency (applyPatch r p) = (case p_currency p of None \<Rightarrow> currency r | Some v \<Rightarrow> v) \<and>
   amount (applyPatch r p) = (case p_amount p of None \<Rightarrow> amount r | Some v \<Rightarrow> v) \<and>
   fxRate (applyPatch r p) = (case p_fxRate p of None \<Rightarrow> fxRate r | Some v \<Rightarrow> Some v) \<and>
   createdBy (applyPatch r p)
     = (case p_createdBy p of None \<Rightarrow> createdBy r | Some v \<Rightarrow> Some v) \<and>
   paidBy (applyPatch r p) = (case p_paidBy p of None \<Rightarrow> paidBy r | Some v \<Rightarrow> Some v) \<and>
   adjustments (applyPatch r p)
     = (case p_adjustments p of None \<Rightarrow> adjustments r | Some v \<Rightarrow> v) \<and>
   split (applyPatch r p) = (case p_split p of None \<Rightarrow> split r | Some v \<Rightarrow> v) \<and>
   row_notes (applyPatch r p)
     = (case p_notes p of None \<Rightarrow> row_notes r | Some v \<Rightarrow> Some v) \<and>
   meta (removeRow ty i cur) = meta cur \<and>
   settings (removeRow ty i cur) = settings cur \<and>
   changelog (removeRow ty i cur) = changelog cur \<and>
   (k \<noteq> keyOf ty \<longrightarrow> getRows k (removeRow ty i cur) = getRows k cur) \<and>
   getRows (keyOf ty) (removeRow ty i cur)
     = filter (\<lambda>r. row_id r \<noteq> i) (getRows (keyOf ty) cur)"
  by (simp add: updateRow_def removeRow_def Let_def getRows_setRows applyPatch_fields)

theorem updateRow_removeRow_frame_witness:
  "Expenses \<noteq> keyOf ''invoice'' \<and>
   (0 :: nat) < length (getRows (keyOf ''invoice'') db0) \<and>
   expenses (updateRow ''invoice'' ''i1'' patchAmount db0) = expenses db0 \<and>
   invoices (updateRow ''invoice'' ''i1'' patchAmount db0) ! 0 = applyPatch inv1 patchAmount \<and>
   amount (applyPatch inv1 patchAmount) = 5 \<and>
   currency (applyPatch inv1 patchAmount) = currency inv1 \<and>
   expenses (removeRow ''invoice'' ''i1'' db0) = expenses db0 \<and>
   invoices (removeRow ''invoice'' ''i1'' db0) = [inv2] \<and>
   changelog (updateRow ''invoice'' ''i1'' patchAmount db0) = changelog db0 \<and>
   meta (removeRow ''invoice'' ''i1'' db0) = meta db0"
proof -
  have k: "keyOf ''invoice'' = Invoices"
    by (simp add: keyOf_def)
  have rows: "invoices db0 = [inv1, inv2]" "row_id inv1 = ''i1''" "row_id inv2 = ''i2''"
    by (simp_all add: seed_rows)
  have pa: "p_amount patchAmount = Some 5" "p_currency patchAmount = None"
    by (simp_all add: patchAmount_def)
  show ?thesis
    using updateRow_removeRow_frame [where ty = "''invoice''" and i = "''i1''"
        and p = patchAmount and cur = db0 and k = Expenses and n = 0 and r = inv1]
    by (simp add: k rows pa)
qed


section \<open>Monthly chart data\<close>

lemma map_of_mapSet: "map_of (mapSet m k v) = (map_of m)(k \<mapsto> v)"
  by (induction m) (auto simp add: fun_eq_iff)

lemma keys_mapSet:
  "map fst (mapSet m k v) = (if k \<in> fst ` set m then map fst m else map fst m @ [k])"
  by (induction m) force+

lemma getOrZero_map_of: "getOrZero m k = (case map_of m k of None \<Rightarrow> 0 | Some v \<Rightarrow> v)"
  by (simp add: getOrZero_def split: option.split)

lemma getOrZero_add:
  "getOrZero (add m dt val) k = (if k = ymOf dt then getOrZero m k + val else getOrZero m k)"
  by (simp add: add_def Let_def getOrZero_map_of map_of_mapSet)

lemma keys_add: "fst ` set (add m dt val) = insert (ymOf dt) (fst ` set m)"
proof -
  have "set (map fst (add m dt val)) = insert (ymOf dt) (set (map fst m))"
    unfolding add_def Let_def keys_mapSet by force
  then show ?thesis by simp
qed

lemma distinct_add: "distinct (map fst m) \<Longrightarrow> distinct (map fst (add m dt val))"
  unfolding add_def Let_def keys_mapSet by force


lemma fold_add_keys:
  "fst ` set (foldl (\<lambda>m r. if P r then add m (date r) (g r) else m) m rs)
   = fst ` set m \<union> (\<lambda>r. ymOf (date r)) ` set (filter P rs)"
  by (induction rs arbitrary: m) (auto simp add: keys_add)

lemma fold_add_distinct:
  "distinct (map fst m) \<Longrightarrow>
   distinct (map fst (foldl (\<lambda>m r. if P r then add m (date r) (g r) else m) m rs))"
  by (induction rs arbitrary: m) (simp_all add: distinct_add)

lemma fold_add_value:
  "getOrZero (foldl (\<lambda>m r. if P r then add m (date r) (g r) else m) m rs) k
   = getOrZero m k + sum_list (map g (filter (\<lambda>r. ymOf (date r) = k) (filter P rs)))"
  by (induction rs arbitrary: m) (simp_all add: getOrZero_add)

lemma sum_list_neg:
  fixes g :: "'a \<Rightarrow> rat"
  shows "sum_list (map (\<lambda>r. - g r) xs) = - sum_list (map g xs)"
  by (induction xs) simp_all

lemma distinct_keys_entries:
  assumes "distinct (map fst m)"
  shows "set m = (\<lambda>k. (k, getOrZero m k)) ` fst ` set m"
proof -
  have "\<And>k v. (k, v) \<in> set m \<longleftrightarrow> map_of m k = Some v"
    using assms by simp
  then have a: "\<And>k v. (k, v) \<in> set m \<Longrightarrow> v = getOrZero m k"
    by (simp add: getOrZero_map_of)
  show ?thesis
  proof (intro equalityI subsetI)
    fix e :: "ym \<times> rat"
    assume em: "e \<in> set m"
    obtain k v where e: "e = (k, v)" by (cases e)
    from em e have kv: "(k, v) \<in> set m" by simp
    then have "v = getOrZero m k" by (rule a)
    moreover from kv have "k \<in> fst ` set m" by force
    ultimately show "e \<in> (\<lambda>k. (k, getOrZero m k)) ` fst ` set m"
      unfolding e by simp
  next
    fix e :: "ym \<times> rat"
    assume "e \<in> (\<lambda>k. (k, getOrZero m k)) ` fst ` set m"
    then obtain k where k: "k \<in> fst ` set m" and e: "e = (k, getOrZero m k)"
      by auto
    from k obtain v where v: "(k, v) \<in> set m"
      by auto
    then have "v = getOrZero m k"
      by (rule a)
    then show "e \<in> set m"
      using v e by simp
  qed
qed

lemma sort_distinct_keys:
  fixes m :: "(ym \<times> rat) list"
  assumes "distinct (map fst m)"
  shows "sort_key fst m = map (\<lambda>k. (k, getOrZero m k)) (sorted_list_of_set (fst ` set m))"
proof (rule map_sorted_distinct_set_unique [where f = fst])
  let ?ys = "map (\<lambda>k. (k, getOrZero m k)) (sorted_list_of_set (fst ` set m))"
  have fin: "finite (fst ` set m)" by simp
  have keys: "map fst ?ys = sorted_list_of_set (fst ` set m)"
    by (simp add: comp_def)
  have sets: "set (sort_key fst m) = set ?ys"
    using distinct_keys_entries [OF assms] by (simp add: fin)
  show "set (sort_key fst m) = set ?ys" by (rule sets)
  show "sorted (map fst (sort_key fst m))" by simp
  have "mset (map fst (sort_key fst m)) = mset (map fst m)" by simp
  then show "distinct (map fst (sort_key fst m))"
    using assms by (metis mset_eq_imp_distinct_iff)
  show "sorted (map fst ?ys)" unfolding keys by simp
  show "distinct (map fst ?ys)" unfolding keys by simp
  show "inj_on fst (set (sort_key fst m) \<union> set ?ys)"
    unfolding sets by (auto simp add: inj_on_def)
qed

lemma matches_db2:
  "matchesFilters flt0 now0 (inv2\<lparr>date := (2026, 2, 10)\<rparr>)"
  "matchesFilters flt0 now0 exp1"
  "matchesFilters flt0 now0 (exp2\<lparr>date := (2026, 2, 20)\<rparr>)"
  by (simp_all add: matchesFilters_def flt0_def dateRangeFor_6m_now0 truthy_def)
     (simp_all add: seed_rows)

lemma nets_db2:
  "netUsdOf (inv2\<lparr>date := (2026, 2, 10)\<rparr>) = 900" "netUsdOf exp1 = 200"
  "netUsdOf (exp2\<lparr>date := (2026, 2, 20)\<rparr>) = 200"
  by (simp_all add: seed_rows core_defs)

lemma dates_db2: "date inv1 = (2026, 3, 15)" "date exp1 = (2026, 3, 15)"
  by (simp_all add: seed_rows)

text \<open>
  C8. The monthly data has one bucket for each year and month in which a row that
  passes the filter is dated, and no other; the value of a bucket is the sum of the
  net amounts of the passing invoices of that month minus the sum of the net amounts
  of the passing expenses of that month; the buckets are in strictly ascending order
  of year and month.
\<close>

theorem monthly_buckets:
  "monthly d f now =
     map (\<lambda>k. (k, sum_list (map netUsdOf (filter (\<lambda>r. ymOf (date r) = k)
                                (filter (matchesFilters f now) (invoices d))))
                 - sum_list (map netUsdOf (filter (\<lambda>r. ymOf (date r) = k)
                                (filter (matchesFilters f now) (expenses d))))))
       (sorted_list_of_set
          ((\<lambda>r. ymOf (date r)) ` (set (filter (matchesFilters f now) (invoices d))
                                   \<union> set (filter (matchesFilters f now) (expenses d)))))
   \<and> sorted_wrt (<) (map fst (monthly d f now))"
proof -
  let ?P = "matchesFilters f now"
  let ?m1 = "foldl (\<lambda>m r. if ?P r then add m (date r) (netUsdOf r) else m) [] (invoices d)"
  let ?m2 = "foldl (\<lambda>m r. if ?P r then add m (date r) (- netUsdOf r) else m) ?m1 (expenses d)"
  have d1: "distinct (map fst ?m1)" by (rule fold_add_distinct) simp
  have d2: "distinct (map fst ?m2)" by (rule fold_add_distinct) (rule d1)
  have keys: "fst ` set ?m2 = (\<lambda>r. ymOf (date r)) ` (set (filter ?P (invoices d))
                                   \<union> set (filter ?P (expenses d)))"
    unfolding fold_add_keys by auto
  have val: "\<And>k. getOrZero ?m2 k
      = sum_list (map netUsdOf (filter (\<lambda>r. ymOf (date r) = k) (filter ?P (invoices d))))
        - sum_list (map netUsdOf (filter (\<lambda>r. ymOf (date r) = k) (filter ?P (expenses d))))"
    unfolding fold_add_value
    by (simp add: getOrZero_def sum_list_neg)
  have "monthly d f now = sort_key fst ?m2"
    by (simp add: monthly_def Let_def)
  also have "\<dots> = map (\<lambda>k. (k, getOrZero ?m2 k)) (sorted_list_of_set (fst ` set ?m2))"
    by (rule sort_distinct_keys [OF d2])
  finally have eq: "monthly d f now =
     map (\<lambda>k. (k, sum_list (map netUsdOf (filter (\<lambda>r. ymOf (date r) = k)
                                (filter ?P (invoices d))))
                 - sum_list (map netUsdOf (filter (\<lambda>r. ymOf (date r) = k)
                                (filter ?P (expenses d))))))
       (sorted_list_of_set
          ((\<lambda>r. ymOf (date r)) ` (set (filter ?P (invoices d))
                                   \<union> set (filter ?P (expenses d)))))"
    unfolding keys val .
  have "sorted_wrt (<) (map fst (monthly d f now))"
    unfolding eq by (simp add: comp_def)
  with eq show ?thesis by blast
qed

theorem monthly_buckets_witness:
  "monthly db2 flt0 now0 = [((2026, 2), 700), ((2026, 3), 964)] \<and>
   \<not> matchesFilters flt0 now0 invOld"
proof -
  have "monthly db2 flt0 now0 = [((2026, 2), 700), ((2026, 3), 964)]"
    by (simp add: monthly_def db2_def matches_db1 matches_db2 nets_db1 nets_db2 dates_db2
        add_def ymOf_def getOrZero_def)
  then show ?thesis
    using monthly_buckets [of db2 flt0 now0] matches_db1 by simp
qed

end
